theory Spec2Isabelle
  imports Main
begin

section \<open>Template layers of the recurrent subnetwork\<close>

text \<open>
  The development follows \<^verbatim>\<open>returnn/tf/layers/rec.py\<close>. Python exceptions are values of
  the type \<open>error\<close>; a function that can raise returns \<open>error + 'a\<close> with \<open>Inl\<close> for
  the exception.
\<close>

datatype error =
  AssertionError
| KeyError
| NetworkConstructionDependencyLoopException
| OtherException
| ZeroDivisionError

text \<open>
  \<^verbatim>\<open>Data\<close>, the descriptor of a layer output. Only the fields that \<^verbatim>\<open>_TemplateLayer.init\<close>
  reads or writes are kept; \<open>size_placeholder = None\<close> is Python's \<^verbatim>\<open>None\<close>.
\<close>

record data =
  data_name :: string
  shape :: "nat option list"
  dtype :: string
  size_placeholder :: "(nat \<times> string) list option"

text \<open>
  A layer class, as far as \<^verbatim>\<open>_TemplateLayer\<close> looks at it: its \<^verbatim>\<open>layer_class\<close> string,
  whether it is a subclass of \<^verbatim>\<open>BaseChoiceLayer\<close>, and what its class method
  \<^verbatim>\<open>cls_get_search_beam_size(**kwargs)\<close> returns for the layer's kwargs.
\<close>

record layer_class_type =
  cls_layer_class :: string
  is_base_choice_layer :: bool
  cls_get_search_beam_size :: "nat option"

text \<open>The entries of \<^verbatim>\<open>kwargs\<close> that \<^verbatim>\<open>init\<close> reads with \<^verbatim>\<open>kwargs.get\<close>.\<close>

record layer_kwargs =
  kw_is_output_layer :: "bool option"
  kw_collocate_with :: "string list option"

text \<open>
  A dependency of a template layer is another object: a \<^verbatim>\<open>_TemplateLayer\<close> of this
  subnetwork, or a real layer of the parent network (\<^verbatim>\<open>base:...\<close>). Template layers are
  identified by their name: \<^verbatim>\<open>visit\<close> asserts
  \<^verbatim>\<open>self.layer_data_templates[layer.name] is layer\<close> for every template it meets.
\<close>

datatype layer_ref = TemplateRef string | BaseRef string

record template_layer =
  layer_class :: string
  is_data_template :: bool
  is_prev_time_frame :: bool
  is_initialized :: bool
  layer_class_type :: "layer_class_type option"
  kwargs :: "layer_kwargs option"
  layer_output :: data
  is_output_layer_attr :: "bool option"
  search_choices :: "nat option"
  collocate_with :: "string list"
  dependencies :: "layer_ref list"
  cur_frame_dependencies :: "layer_ref list"
  prev_frame_dependencies :: "layer_ref list"

text \<open>\<^verbatim>\<open>_TemplateLayer.__init__\<close>: a dummy output, nothing initialized, no dependencies.\<close>

definition dummy_initial_template_data :: data where
  "dummy_initial_template_data =
     \<lparr>data_name = ''dummy_initial_template_data'', shape = [], dtype = ''float32'',
      size_placeholder = Some []\<rparr>"

definition new_template_layer :: template_layer where
  "new_template_layer =
     \<lparr>layer_class = '':uninitialized-template'', is_data_template = False,
      is_prev_time_frame = False, is_initialized = False, layer_class_type = None,
      kwargs = None, layer_output = dummy_initial_template_data, is_output_layer_attr = None,
      search_choices = None, collocate_with = [], dependencies = [],
      cur_frame_dependencies = [], prev_frame_dependencies = []\<rparr>"








section \<open>Initialising a template layer\<close>




section \<open>Accumulating outputs inside the loop\<close>

text \<open>
  \<^verbatim>\<open>tf.while_loop\<close> calls \<^verbatim>\<open>body\<close> once, to build the graph of one step; the graph is then
  run at every step. A tensor of the body is therefore a function of the step: a scalar
  tensor of the step counter is \<open>nat \<Rightarrow> nat\<close>, a value tensor is \<open>nat \<Rightarrow> 'v\<close>. The content
  of a \<^verbatim>\<open>TensorArray\<close> is the list of the writes made to it, each an index and a value, so
  that writing a slot twice is visible. A \<^verbatim>\<open>TensorArray\<close> of the body is a function of the
  step and of the content that the loop variable holds when the step starts.
\<close>

type_synonym 'v tensor_array = "(nat \<times> 'v) list"

type_synonym 'v ta_tensor = "nat \<Rightarrow> 'v tensor_array \<Rightarrow> 'v tensor_array"

text \<open>
  \<^verbatim>\<open>OutputToAccumulate\<close>. \<^verbatim>\<open>get\<close> is called while the body is built and returns a tensor or
  \<^verbatim>\<open>None\<close>; \<^verbatim>\<open>get_returned_none\<close> starts as \<^verbatim>\<open>None\<close>.
\<close>

record 'v output_to_accumulate =
  acc_name :: string
  get :: "(nat \<Rightarrow> 'v) option"
  get_returned_none :: "bool option"

text \<open>\<^verbatim>\<open>ta.write(index=index, value=value)\<close>: the array with one more write.\<close>

definition ta_write :: "'v ta_tensor \<Rightarrow> (nat \<Rightarrow> nat) \<Rightarrow> (nat \<Rightarrow> 'v) \<Rightarrow> 'v ta_tensor" where
  "ta_write ta index val = (\<lambda>i a. ta i a @ [(index i, val i)])"

text \<open>
  \<^verbatim>\<open>OutputToAccumulate.write_to_tensor_array\<close>: asserts that it was not called before, calls
  the getter, and returns the array unchanged when the getter gave \<^verbatim>\<open>None\<close>.
\<close>

definition write_to_tensor_array ::
  "'v output_to_accumulate \<Rightarrow> 'v ta_tensor \<Rightarrow> (nat \<Rightarrow> nat)
    \<Rightarrow> error + ('v output_to_accumulate \<times> 'v ta_tensor)" where
  "write_to_tensor_array self ta index =
     (if get_returned_none self \<noteq> None then Inl AssertionError
      else case get self of
        None \<Rightarrow> Inr (self\<lparr>get_returned_none := Some True\<rparr>, ta)
      | Some val \<Rightarrow> Inr (self\<lparr>get_returned_none := Some False\<rparr>, ta_write ta index val))"

text \<open>\<^verbatim>\<open>OutputToAccumulate.get_final_tensor_array\<close>.\<close>

definition get_final_tensor_array ::
  "'v output_to_accumulate \<Rightarrow> 'v tensor_array \<Rightarrow> error + 'v tensor_array option" where
  "get_final_tensor_array self ta =
     (case get_returned_none self of
        None \<Rightarrow> Inl AssertionError
      | Some True \<Rightarrow> Inr None
      | Some False \<Rightarrow> Inr (Some ta))"

text \<open>
  The end of \<^verbatim>\<open>body\<close>: the list comprehension over \<^verbatim>\<open>zip(acc_tas, outputs_to_accumulate)\<close>,
  after the assertion on the two lengths, with the step counter \<^verbatim>\<open>i\<close> as index.
\<close>

fun write_all ::
  "('v ta_tensor \<times> 'v output_to_accumulate) list \<Rightarrow> (nat \<Rightarrow> nat)
    \<Rightarrow> error + ('v output_to_accumulate \<times> 'v ta_tensor) list" where
  "write_all [] index = Inr []"
| "write_all ((acc_ta, out) # rest) index =
     (case write_to_tensor_array out acc_ta index of
        Inl e \<Rightarrow> Inl e
      | Inr r \<Rightarrow> (case write_all rest index of Inl e \<Rightarrow> Inl e | Inr rs \<Rightarrow> Inr (r # rs)))"

definition body_acc ::
  "'v output_to_accumulate list \<Rightarrow> 'v ta_tensor list
    \<Rightarrow> error + ('v output_to_accumulate \<times> 'v ta_tensor) list" where
  "body_acc outputs_to_accumulate acc_tas =
     (if length acc_tas \<noteq> length outputs_to_accumulate then Inl AssertionError
      else write_all (zip acc_tas outputs_to_accumulate) (\<lambda>i. i))"

text \<open>
  The loop variable \<^verbatim>\<open>acc_ta\<close> that \<^verbatim>\<open>body\<close> receives, and the run of the built step graph
  for the steps \<open>0, ..., n - 1\<close> from the initial arrays; \<open>times_written a i\<close> counts the
  writes to slot \<open>i\<close>.
\<close>

definition loop_var :: "'v ta_tensor" where
  "loop_var = (\<lambda>i a. a)"

primrec run_acc :: "'v ta_tensor list \<Rightarrow> nat \<Rightarrow> 'v tensor_array list \<Rightarrow> 'v tensor_array list" where
  "run_acc tas 0 init_acc_tas = init_acc_tas"
| "run_acc tas (Suc n) init_acc_tas = map (\<lambda>(t, a). t n a) (zip tas (run_acc tas n init_acc_tas))"

definition times_written :: "'v tensor_array \<Rightarrow> nat \<Rightarrow> nat" where
  "times_written a i = length (filter (\<lambda>w. fst w = i) a)"

lemma write_all_length:
  "write_all xs index = Inr rs \<Longrightarrow> length rs = length xs"
  by (induction xs arbitrary: rs) (auto split: sum.splits)

lemma write_all_nth:
  "write_all xs index = Inr rs \<Longrightarrow> k < length xs \<Longrightarrow>
   write_to_tensor_array (snd (xs ! k)) (fst (xs ! k)) index = Inr (rs ! k)"
proof (induction xs arbitrary: rs k)
  case Nil
  then show ?case by simp
next
  case (Cons x xs)
  obtain t out where x: "x = (t, out)" by (cases x)
  from Cons.prems(1) x obtain r rs' where
    r: "write_to_tensor_array out t index = Inr r"
    and rs': "write_all xs index = Inr rs'" and rs: "rs = r # rs'"
    by (auto split: sum.splits)
  show ?case
  proof (cases k)
    case 0
    with r rs x show ?thesis by simp
  next
    case (Suc j)
    with Cons.prems(2) have "j < length xs" by simp
    from Cons.IH [OF rs' this] Suc rs show ?thesis by simp
  qed
qed

lemma write_all_fresh:
  "\<forall>x \<in> set xs. get_returned_none (snd x) = None \<Longrightarrow> \<exists>rs. write_all xs index = Inr rs"
  by (induction xs) (auto simp: write_to_tensor_array_def split: option.splits)

lemma run_acc_length:
  "length init_acc_tas = length tas \<Longrightarrow> length (run_acc tas n init_acc_tas) = length tas"
  by (induction n) auto

lemma run_acc_nth:
  "length init_acc_tas = length tas \<Longrightarrow> k < length tas \<Longrightarrow>
   run_acc tas (Suc n) init_acc_tas ! k = (tas ! k) n (run_acc tas n init_acc_tas ! k)"
  by (simp add: run_acc_length)

lemma run_acc_skip:
  assumes "length init_acc_tas = length tas" "k < length tas" "tas ! k = loop_var"
  shows "run_acc tas n init_acc_tas ! k = init_acc_tas ! k"
  using assms by (induction n) (auto simp: run_acc_length loop_var_def)

lemma run_acc_write:
  assumes "length init_acc_tas = length tas" "k < length tas"
    "tas ! k = ta_write loop_var (\<lambda>i. i) val"
  shows "run_acc tas n init_acc_tas ! k = init_acc_tas ! k @ map (\<lambda>i. (i, val i)) [0..<n]"
  using assms by (induction n) (auto simp: run_acc_length loop_var_def ta_write_def)

lemma times_written_map:
  "times_written (map (\<lambda>i. (i, val i)) [0..<n]) i = (if i < n then 1 else 0)"
  by (induction n) (auto simp: times_written_def)


text \<open>Two outputs for the example: an error value that is absent, and a layer output.\<close>

definition skipped_output :: "nat output_to_accumulate" where
  "skipped_output = \<lparr>acc_name = ''error_ce'', get = None, get_returned_none = None\<rparr>"

definition written_output :: "nat output_to_accumulate" where
  "written_output = \<lparr>acc_name = ''output_output'', get = Some (\<lambda>i. 10 + i),
                      get_returned_none = None\<rparr>"

text \<open>
  C10: skipping is all or nothing for each accumulated output. With fresh outputs the
  body is built without error. An output whose getter returned \<^verbatim>\<open>None\<close> then is never
  written in a run of any number \<open>n\<close> of steps, and its final array is reported as \<^verbatim>\<open>None\<close>;
  an output whose getter returned a tensor is written exactly once at every step index
  below \<open>n\<close> and nowhere else, and its final array is reported. The decision is taken once:
  a second \<^verbatim>\<open>write_to_tensor_array\<close> on the same output fails its assertion.
\<close>

theorem accumulate_all_or_nothing:
  assumes fresh: "\<forall>out \<in> set outs. get_returned_none out = None"
  shows "\<exists>rs. body_acc outs (replicate (length outs) loop_var) = Inr rs \<and>
           length rs = length outs \<and>
           (\<forall>k < length outs.
              (get (outs ! k) = None \<longrightarrow>
                 run_acc (map snd rs) n (replicate (length outs) []) ! k = [] \<and>
                 get_final_tensor_array (fst (rs ! k)) final_ta = Inr None) \<and>
              (\<forall>val. get (outs ! k) = Some val \<longrightarrow>
                 run_acc (map snd rs) n (replicate (length outs) []) ! k
                   = map (\<lambda>i. (i, val i)) [0..<n] \<and>
                 (\<forall>i. times_written
                        (run_acc (map snd rs) n (replicate (length outs) []) ! k) i
                      = (if i < n then 1 else 0)) \<and>
                 get_final_tensor_array (fst (rs ! k)) final_ta = Inr (Some final_ta)) \<and>
              write_to_tensor_array (fst (rs ! k)) ta index = Inl AssertionError)"
proof -
  let ?xs = "zip (replicate (length outs) (loop_var :: 'a ta_tensor)) outs"
  have len: "length ?xs = length outs" by simp
  from fresh have "\<forall>x \<in> set ?xs. get_returned_none (snd x) = None"
    by (auto dest: set_zip_rightD)
  from write_all_fresh [OF this] obtain rs where rs: "write_all ?xs (\<lambda>i. i) = Inr rs"
    by blast
  have body: "body_acc outs (replicate (length outs) loop_var) = Inr rs"
    using rs by (simp add: body_acc_def)
  have lrs: "length rs = length outs"
    using write_all_length [OF rs] by simp
  have each: "write_to_tensor_array (outs ! k) loop_var (\<lambda>i. i) = Inr (rs ! k)"
    if k: "k < length outs" for k
    using write_all_nth [OF rs, of k] k by simp
  have linit: "length (replicate (length outs) ([] :: 'a tensor_array)) = length (map snd rs)"
    using lrs by simp
  show ?thesis
  proof (intro exI conjI allI impI)
    show "body_acc outs (replicate (length outs) loop_var) = Inr rs" by (rule body)
    show "length rs = length outs" by (rule lrs)
  next
    fix k assume k: "k < length outs"
    assume none: "get (outs ! k) = None"
    from each [OF k] none fresh k
    have rk: "rs ! k = ((outs ! k)\<lparr>get_returned_none := Some True\<rparr>, loop_var)"
      by (auto simp: write_to_tensor_array_def)
    have "map snd rs ! k = loop_var" using rk k lrs by simp
    from run_acc_skip [OF linit _ this] k lrs
    show "run_acc (map snd rs) n (replicate (length outs) []) ! k = []" by simp
    show "get_final_tensor_array (fst (rs ! k)) final_ta = Inr None"
      using rk by (simp add: get_final_tensor_array_def)
  next
    fix k val assume k: "k < length outs"
    assume some: "get (outs ! k) = Some val"
    from each [OF k] some fresh k
    have rk: "rs ! k = ((outs ! k)\<lparr>get_returned_none := Some False\<rparr>,
                       ta_write loop_var (\<lambda>i. i) val)"
      by (auto simp: write_to_tensor_array_def)
    have "map snd rs ! k = ta_write loop_var (\<lambda>i. i) val" using rk k lrs by simp
    from run_acc_write [OF linit _ this] k lrs
    show fin: "run_acc (map snd rs) n (replicate (length outs) []) ! k
                 = map (\<lambda>i. (i, val i)) [0..<n]" by simp
    show "get_final_tensor_array (fst (rs ! k)) final_ta = Inr (Some final_ta)"
      using rk by (simp add: get_final_tensor_array_def)
    fix i
    show "times_written (run_acc (map snd rs) n (replicate (length outs) []) ! k) i
            = (if i < n then 1 else 0)"
      unfolding fin by (rule times_written_map)
  next
    fix k assume k: "k < length outs"
    from each [OF k, symmetric] have "get_returned_none (fst (rs ! k)) \<noteq> None"
      by (auto simp: write_to_tensor_array_def split: if_splits option.splits)
    then show "write_to_tensor_array (fst (rs ! k)) ta index = Inl AssertionError"
      by (simp add: write_to_tensor_array_def)
  qed
qed

theorem accumulate_all_or_nothing_witness:
  "get_returned_none skipped_output = None \<and> get_returned_none written_output = None \<and>
   (\<exists>rs. body_acc [skipped_output, written_output] [loop_var, loop_var] = Inr rs \<and>
         run_acc (map snd rs) 3 [[], []] ! 0 = [] \<and>
         run_acc (map snd rs) 3 [[], []] ! 1 = [(0, 10), (1, 11), (2, 12)] \<and>
         get_final_tensor_array (fst (rs ! 0)) [] = Inr None)"
proof -
  let ?outs = "[skipped_output, written_output]"
  have f: "\<forall>out \<in> set ?outs. get_returned_none out = None"
    by (simp add: skipped_output_def written_output_def)
  have r: "replicate (length ?outs) x = [x, x]" for x :: 'b
    by simp
  from accumulate_all_or_nothing
    [OF f, where n = 3 and final_ta = "[]" and ta = loop_var and index = "\<lambda>i. i", unfolded r]
  obtain rs where b: "body_acc ?outs [loop_var, loop_var] = Inr rs"
    and a: "\<And>k. k < length ?outs \<Longrightarrow>
              (get (?outs ! k) = None \<longrightarrow>
                 run_acc (map snd rs) 3 [[], []] ! k = [] \<and>
                 get_final_tensor_array (fst (rs ! k)) [] = Inr None) \<and>
              (\<forall>val. get (?outs ! k) = Some val \<longrightarrow>
                 run_acc (map snd rs) 3 [[], []] ! k = map (\<lambda>i. (i, val i)) [0..<3])"
    by blast
  from a [of 0] have a0: "run_acc (map snd rs) 3 [[], []] ! 0 = [] \<and>
                   get_final_tensor_array (fst (rs ! 0)) [] = Inr None"
    by (simp add: skipped_output_def)
  from a [of 1] have "run_acc (map snd rs) 3 [[], []] ! 1 = map (\<lambda>i. (i, 10 + i)) [0..<3]"
    by (simp add: written_output_def)
  then have a1: "run_acc (map snd rs) 3 [[], []] ! 1 = [(0, 10), (1, 11), (2, 12)]"
    by (simp add: upt_rec)
  from f b a0 a1 show ?thesis by auto
qed

section \<open>The step loop with a dynamic length\<close>

text \<open>
  The loop variables of \<^verbatim>\<open>tf.while_loop\<close> in \<^verbatim>\<open>_SubnetworkRecCell.get_output\<close> are
  \<^verbatim>\<open>(i, net_vars, acc_tas, seq_len_info)\<close>. Here \<open>'s\<close> stands for \<^verbatim>\<open>net_vars\<close> together with
  \<^verbatim>\<open>acc_tas\<close> (the accumulators are the subject of the previous section), and
  \<^verbatim>\<open>seq_len_info\<close> is \<^verbatim>\<open>None\<close> or the pair \<^verbatim>\<open>(end_flag, dyn_seq_len)\<close> with one entry per
  hypothesis.
\<close>

type_synonym 's loop_vars = "int \<times> 's \<times> (bool list \<times> nat list) option"

text \<open>
  What one construction of the step network gives \<^verbatim>\<open>body\<close>: the next \<^verbatim>\<open>net_vars\<close>, the output
  of the layer \<^verbatim>\<open>"end"\<close>, and, when the end layer has search choices, the layer
  \<^verbatim>\<open>cur_end_layer = choices.translate_to_this_search_beam(prev_end_layer)\<close>: its output as a
  function of the previous end flag, and its \<^verbatim>\<open>transform_func\<close>.
\<close>

record 's frame =
  net_vars_out :: 's
  end_output :: "bool list"
  cur_end_layer :: "((bool list \<Rightarrow> bool list) \<times> (nat list \<Rightarrow> nat list)) option"

text \<open>\<^verbatim>\<open>tf.where(flag, 0, 1)\<close> and the elementwise \<^verbatim>\<open>tf.logical_or\<close> and addition.\<close>

definition where_0_1 :: "bool list \<Rightarrow> nat list" where
  "where_0_1 flags = map (\<lambda>b. if b then 0 else 1) flags"

definition logical_or :: "bool list \<Rightarrow> bool list \<Rightarrow> bool list" where
  "logical_or xs ys = map (\<lambda>(x, y). x \<or> y) (zip xs ys)"

definition add_elementwise :: "nat list \<Rightarrow> nat list \<Rightarrow> nat list" where
  "add_elementwise xs ys = map (\<lambda>(x, y). x + y) (zip xs ys)"

text \<open>
  \<^verbatim>\<open>body\<close>, as far as the loop counter and \<^verbatim>\<open>seq_len_info\<close> go (lines 2285 to 2326). The
  assertions on the shape of the end layer are checks of the graph when the body is built;
  they do not depend on the step and are not part of the run.
\<close>

definition body ::
  "(int \<Rightarrow> 's \<Rightarrow> (bool list \<times> nat list) option \<Rightarrow> 's frame) \<Rightarrow> bool
    \<Rightarrow> 's loop_vars \<Rightarrow> 's loop_vars" where
  "body construct include_eos vars =
     (case vars of (i, net_vars, seq_len_info) \<Rightarrow>
        let fr = construct i net_vars seq_len_info;
            seq_len_info' =
              (case seq_len_info of
                 None \<Rightarrow> None
               | Some (end_flag, dyn_seq_len) \<Rightarrow>
                   (case cur_end_layer fr of
                      Some (cur_end_output, transform_func) \<Rightarrow>
                        let end_flag' = logical_or (cur_end_output end_flag) (end_output fr);
                            dyn_seq_len' =
                              add_elementwise (transform_func dyn_seq_len)
                                (where_0_1 (if include_eos then cur_end_output end_flag
                                            else end_flag'))
                        in Some (end_flag', dyn_seq_len')
                    | None \<Rightarrow>
                        let end_flag' = logical_or end_flag (end_output fr);
                            dyn_seq_len' = add_elementwise dyn_seq_len (where_0_1 end_flag')
                        in Some (end_flag', dyn_seq_len')))
        in (i + 1, net_vars_out fr, seq_len_info'))"

text \<open>
  In \<^verbatim>\<open>cond\<close>, \<^verbatim>\<open>res\<close> starts as the Python constant \<^verbatim>\<open>True\<close> and becomes a tensor once a test
  is added.
\<close>

datatype cond_res = PyTrue | Tensor bool

text \<open>
  Modelled from the spec: \<^verbatim>\<open>returnn.tf.util.basic.opt_logical_and\<close> is not among the
  sources. Continuation "requires both" tests, and the constant \<^verbatim>\<open>True\<close> is the neutral
  element.
\<close>

fun opt_logical_and :: "cond_res \<Rightarrow> bool \<Rightarrow> cond_res" where
  "opt_logical_and PyTrue t = Tensor t"
| "opt_logical_and (Tensor a) t = Tensor (a \<and> t)"

text \<open>
  The option \<^verbatim>\<open>max_seq_len\<close> of the layer, \<^verbatim>\<open>rec_layer._max_seq_len\<close>: absent, an integer
  (or a scalar tensor), or something else.
\<close>

datatype max_seq_len_option = MaxSeqLenNone | MaxSeqLenInt int | MaxSeqLenOther

text \<open>
  The first test of \<^verbatim>\<open>cond\<close>, the tensor \<^verbatim>\<open>i_less_max_seq_len\<close>. \<open>max_seq_len\<close> is the
  variable of \<^verbatim>\<open>get_output\<close>: with an unknown length it is \<^verbatim>\<open>None\<close>, or the common length of
  the external data the subnetwork uses. Only when it is \<^verbatim>\<open>None\<close> the option of the layer
  is looked at, and an option that is neither absent nor an integer fails the assertion.
\<close>

definition i_less_max_seq_len :: "max_seq_len_option \<Rightarrow> int option \<Rightarrow> int \<Rightarrow> error + cond_res" where
  "i_less_max_seq_len rec_layer_max_seq_len max_seq_len i =
     (case max_seq_len of
        Some m \<Rightarrow> Inr (opt_logical_and PyTrue (i < m))
      | None \<Rightarrow>
          (case rec_layer_max_seq_len of
             MaxSeqLenInt m \<Rightarrow> Inr (opt_logical_and PyTrue (i < m))
           | MaxSeqLenNone \<Rightarrow> Inr PyTrue
           | MaxSeqLenOther \<Rightarrow> Inl AssertionError))"

text \<open>The run-time value of \<^verbatim>\<open>res\<close>.\<close>

fun tensor_value :: "cond_res \<Rightarrow> bool" where
  "tensor_value PyTrue = True"
| "tensor_value (Tensor b) = b"

text \<open>
  \<^verbatim>\<open>cond\<close>: the test against the cap, the assertion \<^verbatim>\<open>res is not True\<close> that some cap is
  given, and with \<^verbatim>\<open>seq_len_info\<close> the test \<^verbatim>\<open>any_not_ended\<close>.
\<close>

definition cond ::
  "max_seq_len_option \<Rightarrow> int option \<Rightarrow> 's loop_vars \<Rightarrow> error + bool" where
  "cond rec_layer_max_seq_len max_seq_len vars =
     (case vars of (i, net_vars, seq_len_info) \<Rightarrow>
        (case i_less_max_seq_len rec_layer_max_seq_len max_seq_len i of
           Inl e \<Rightarrow> Inl e
         | Inr res \<Rightarrow>
             if res = PyTrue then Inl AssertionError
             else (case seq_len_info of
                     None \<Rightarrow> Inr (tensor_value res)
                   | Some (end_flag, dyn_seq_len) \<Rightarrow>
                       Inr (tensor_value
                              (opt_logical_and res (\<exists>b \<in> set end_flag. \<not> b))))))"

text \<open>
  The cap that \<^verbatim>\<open>cond\<close> tests against, for the termination of the loop: zero when there is
  none (then \<^verbatim>\<open>cond\<close> raises).
\<close>

definition cap_of :: "max_seq_len_option \<Rightarrow> int option \<Rightarrow> int" where
  "cap_of rec_layer_max_seq_len max_seq_len =
     (case max_seq_len of
        Some m \<Rightarrow> m
      | None \<Rightarrow> (case rec_layer_max_seq_len of MaxSeqLenInt m \<Rightarrow> m | _ \<Rightarrow> 0))"

lemma cond_True_below_cap:
  "cond u m vars = Inr True \<Longrightarrow> fst vars < cap_of u m"
  by (cases vars)
     (auto simp: cond_def cap_of_def i_less_max_seq_len_def
       split: option.splits max_seq_len_option.splits cond_res.splits if_splits sum.splits)

text \<open>\<^verbatim>\<open>tf.while_loop(cond, body, loop_vars)\<close>: run \<^verbatim>\<open>body\<close> as long as \<^verbatim>\<open>cond\<close> holds.\<close>

function while_loop ::
  "max_seq_len_option \<Rightarrow> int option
    \<Rightarrow> (int \<Rightarrow> 's \<Rightarrow> (bool list \<times> nat list) option \<Rightarrow> 's frame) \<Rightarrow> bool
    \<Rightarrow> 's loop_vars \<Rightarrow> error + 's loop_vars" where
  "while_loop u m construct include_eos vars =
     (case cond u m vars of
        Inl e \<Rightarrow> Inl e
      | Inr continue \<Rightarrow>
          if continue then while_loop u m construct include_eos (body construct include_eos vars)
          else Inr vars)"
  by pat_completeness auto
termination
  apply (relation "measure (\<lambda>(u, m, construct, include_eos, vars). nat (cap_of u m - fst vars))")
   apply simp
  apply (auto dest!: cond_True_below_cap simp: body_def Let_def split: prod.splits)
  done

declare while_loop.simps [simp del]





text \<open>
  Scenario B of the specification: two hypotheses, an end layer that signals the end once
  the step index is at least 3, no search choices, and the cap 10.
\<close>

definition end_from_step_3 :: "int \<Rightarrow> unit \<Rightarrow> (bool list \<times> nat list) option \<Rightarrow> unit frame" where
  "end_from_step_3 i net_vars seq_len_info =
     \<lparr>net_vars_out = (), end_output = [3 \<le> i, 3 \<le> i], cur_end_layer = None\<rparr>"



section \<open>The length of the loop in \<^verbatim>\<open>get_output\<close>\<close>

text \<open>
  What \<^verbatim>\<open>_SubnetworkRecCell.get_output\<close> reads of the \<^verbatim>\<open>RecLayer\<close> to fix the length:
  \<^verbatim>\<open>input_data\<close> (absent, or present with the sequence lengths that \<^verbatim>\<open>_get_input\<close> returns),
  the dict \<^verbatim>\<open>output.size_placeholder\<close>, \<^verbatim>\<open>size_target\<close> (absent, or present with the sequence
  lengths of that target), and the options \<^verbatim>\<open>max_seq_len\<close> and \<^verbatim>\<open>include_eos\<close>. A tensor of
  sequence lengths is an \<open>int list\<close>, one entry per sequence of the batch.
\<close>

record rec_layer =
  input_data :: "int list option"
  output_size_placeholder :: "(nat \<times> int list) list"
  size_target :: "int list option"
  rec_max_seq_len :: max_seq_len_option
  include_eos :: bool

record seq_len_setup =
  fixed_seq_len :: "int list option"
  max_seq_len :: "int option"
  have_known_seq_len :: bool

text \<open>\<^verbatim>\<open>tf.reduce_max\<close> of an \<^verbatim>\<open>int32\<close> tensor; the result for no entries is the least value.\<close>

definition reduce_max :: "int list \<Rightarrow> int" where
  "reduce_max xs = foldr max xs (- 2147483648)"

text \<open>
  Lines 1822 to 1877 of \<^verbatim>\<open>get_output\<close>. \<open>output_template_search_choices\<close> says whether the
  template of \<^verbatim>\<open>"output"\<close> has search choices inside this layer. A failed \<^verbatim>\<open>assert\<close> is
  \<open>Inl AssertionError\<close>, a missing key \<open>0\<close> of the dict \<open>Inl KeyError\<close>.
\<close>

definition get_output_seq_len ::
  "rec_layer \<Rightarrow> bool \<Rightarrow> (string \<rightharpoonup> template_layer) \<Rightarrow> error + seq_len_setup" where
  "get_output_seq_len rec_layer output_template_search_choices layer_data_templates =
     (let input_seq_len = input_data rec_layer;
          fixed1 =
            (if output_size_placeholder rec_layer \<noteq> [] \<and> \<not> output_template_search_choices
             then (case map_of (output_size_placeholder rec_layer) 0 of
                     None \<Rightarrow> Inl KeyError
                   | Some lens \<Rightarrow> Inr (Some lens))
             else if size_target rec_layer \<noteq> None then Inr (size_target rec_layer)
             else Inr None)
      in case fixed1 of
           Inl e \<Rightarrow> Inl e
         | Inr fixed1' \<Rightarrow>
             (let fixed2 =
                    (if fixed1' = None \<and> ''end'' \<notin> dom layer_data_templates
                     then (if input_seq_len = None then Inl AssertionError
                           else Inr input_seq_len)
                     else Inr fixed1')
              in case fixed2 of
                   Inl e \<Rightarrow> Inl e
                 | Inr None \<Rightarrow>
                     if ''end'' \<in> dom layer_data_templates
                     then Inr \<lparr>fixed_seq_len = None, max_seq_len = None,
                               have_known_seq_len = False\<rparr>
                     else Inl AssertionError
                 | Inr (Some lens) \<Rightarrow>
                     Inr \<lparr>fixed_seq_len = Some lens, max_seq_len = Some (reduce_max lens),
                          have_known_seq_len = True\<rparr>))"

text \<open>
  The rest of \<^verbatim>\<open>get_output\<close>, as far as the loop goes: it comes after the length is fixed
  and uses its result. \<open>common_data_len\<close> is the length of the external data that the
  subnetwork uses, if any, which becomes \<^verbatim>\<open>max_seq_len\<close> when that is still \<^verbatim>\<open>None\<close>;
  \<open>batch\<close> is the batch dimension of the end layer. With a known length the loop variables
  have no \<^verbatim>\<open>seq_len_info\<close>; otherwise the end flag starts as all false and the length as
  all zero. With no layer left in the loop, no loop is built.
\<close>

definition get_output ::
  "rec_layer \<Rightarrow> bool \<Rightarrow> (string \<rightharpoonup> template_layer) \<Rightarrow> int option \<Rightarrow> string list
    \<Rightarrow> (int \<Rightarrow> 's \<Rightarrow> (bool list \<times> nat list) option \<Rightarrow> 's frame) \<Rightarrow> 's \<Rightarrow> nat
    \<Rightarrow> error + 's loop_vars option" where
  "get_output rec_layer output_template_search_choices layer_data_templates common_data_len
     layers_in_loop construct init_loop_vars batch =
     (case get_output_seq_len rec_layer output_template_search_choices layer_data_templates of
        Inl e \<Rightarrow> Inl e
      | Inr setup \<Rightarrow>
          (let max_seq_len' =
                 (if max_seq_len setup = None then common_data_len else max_seq_len setup);
               seq_len_info =
                 (if have_known_seq_len setup then None
                  else Some (replicate batch False, replicate batch 0))
           in if layers_in_loop = [] then Inr None
              else (case while_loop (rec_max_seq_len rec_layer) max_seq_len' construct
                           (include_eos rec_layer) (0, init_loop_vars, seq_len_info) of
                      Inl e \<Rightarrow> Inl e
                    | Inr final_loop_vars \<Rightarrow> Inr (Some final_loop_vars))))"

text \<open>
  A layer without input, without size of the output and without size target, and a
  subnetwork with the single layer \<^verbatim>\<open>"output"\<close>.
\<close>

definition rec_layer_without_length :: rec_layer where
  "rec_layer_without_length =
     \<lparr>input_data = None, output_size_placeholder = [], size_target = None,
      rec_max_seq_len = MaxSeqLenInt 10, include_eos = False\<rparr>"

definition only_output_template :: "string \<rightharpoonup> template_layer" where
  "only_output_template = [''output'' \<mapsto> new_template_layer]"

text \<open>
  C7: a layer that has no input sequence, no size of the output and no size target, with a
  subnetwork that has no layer \<^verbatim>\<open>"end"\<close>, fails the assertion "length is not defined" when
  \<^verbatim>\<open>get_output\<close> fixes the length; \<^verbatim>\<open>get_output\<close> raises there, whatever the step network
  and the other arguments are, so the loop is neither built nor run.
\<close>

theorem no_length_no_end_fails:
  assumes "input_data rec_layer = None"
    and "output_size_placeholder rec_layer = []"
    and "size_target rec_layer = None"
    and "''end'' \<notin> dom layer_data_templates"
  shows "get_output_seq_len rec_layer output_template_search_choices layer_data_templates
           = Inl AssertionError \<and>
         get_output rec_layer output_template_search_choices layer_data_templates
           common_data_len layers_in_loop construct init_loop_vars batch = Inl AssertionError"
  using assms by (simp add: get_output_def get_output_seq_len_def)

theorem no_length_no_end_fails_witness:
  "input_data rec_layer_without_length = None \<and>
   output_size_placeholder rec_layer_without_length = [] \<and>
   size_target rec_layer_without_length = None \<and>
   ''end'' \<notin> dom only_output_template \<and>
   get_output rec_layer_without_length False only_output_template (Some 7) [''output'']
     end_from_step_3 () 2 = Inl AssertionError"
proof -
  have a: "input_data rec_layer_without_length = None"
    and b: "output_size_placeholder rec_layer_without_length = []"
    and c: "size_target rec_layer_without_length = None"
    by (simp_all add: rec_layer_without_length_def)
  have d: "''end'' \<notin> dom only_output_template"
    by (simp add: only_output_template_def)
  have "get_output rec_layer_without_length False only_output_template (Some 7) [''output'']
          end_from_step_3 () 2 = Inl AssertionError"
    by (rule no_length_no_end_fails [OF a b c d, THEN conjunct2])
  with a b c d show ?thesis by simp
qed

end
